theory Spec2Isabelle
  imports Main
begin

section \<open>The response envelope (namespace API of types.ts)\<close>

text \<open>
  The error payload of an errored envelope: \<^verbatim>\<open>error: { message: string; code: string }\<close>.
\<close>

record APIErrorBody =
  message :: string
  code :: string

text \<open>
  \<^verbatim>\<open>EitherAPIResponse<T> = SuccessfulAPIResponse<T> | ErroredAPIResponse\<close>, a union tagged
  by its \<^verbatim>\<open>success\<close> field. The type parameter is the source's \<^verbatim>\<open>T\<close>; the fetch operation
  uses it at \<^verbatim>\<open>Types.Presence\<close>.
\<close>

datatype 'a EitherAPIResponse =
    SuccessfulAPIResponse 'a
  | ErroredAPIResponse APIErrorBody

text \<open>
  Property reads on an envelope object. Both variants have \<^verbatim>\<open>success\<close>; \<^verbatim>\<open>data\<close> exists on
  the successful variant only and \<^verbatim>\<open>error\<close> on the errored variant only. Reading a property
  an object does not have yields JavaScript's \<^verbatim>\<open>undefined\<close>, written \<open>None\<close> here.
\<close>

fun success :: "'a EitherAPIResponse \<Rightarrow> bool" where
  "success (SuccessfulAPIResponse d) = True"
| "success (ErroredAPIResponse e) = False"

fun data :: "'a EitherAPIResponse \<Rightarrow> 'a option" where
  "data (SuccessfulAPIResponse d) = Some d"
| "data (ErroredAPIResponse e) = None"

fun error :: "'a EitherAPIResponse \<Rightarrow> APIErrorBody option" where
  "error (SuccessfulAPIResponse d) = None"
| "error (ErroredAPIResponse e) = Some e"

text \<open>
  The platform's \<^verbatim>\<open>Response\<close>, reduced to the \<^verbatim>\<open>ok\<close> flag that the library reads, the
  status code, and the outcome of \<^verbatim>\<open>response.json()\<close>, which either rejects with a
  failure value of the platform (type \<open>'e\<close>) or yields the parsed body. The source casts
  the parsed value to \<^verbatim>\<open>Routes.GetPresence\<close> without checking it, so the model covers the
  bodies of that declared shape.
\<close>

record ('e, 'a) Response =
  ok :: bool
  status :: nat
  json :: "'e + 'a EitherAPIResponse"

text \<open>\<^verbatim>\<open>isSuccess\<close>: \<^verbatim>\<open>return response.ok && body.success;\<close>\<close>

definition isSuccess :: "('e, 'a) Response \<Rightarrow> 'a EitherAPIResponse \<Rightarrow> bool" where
  "isSuccess response body = (ok response \<and> success body)"

text \<open>\<^verbatim>\<open>isErrored\<close>: \<^verbatim>\<open>return !isSuccess(response, body);\<close>\<close>

definition isErrored :: "('e, 'a) Response \<Rightarrow> 'a EitherAPIResponse \<Rightarrow> bool" where
  "isErrored response body = (\<not> isSuccess response body)"

section \<open>The fetch operation (http.ts)\<close>

text \<open>
  The platform's \<^verbatim>\<open>Request\<close>. \<^verbatim>\<open>new Request(input)\<close> with a single argument gives a GET
  request without headers and without a body. \<open>input\<close> is the string handed to the
  constructor, \<open>verb\<close> the HTTP method and \<open>payload\<close> the request body. The request's URL
  is not that string but what the platform's URL parser makes of it; it is \<open>url\<close> below.
\<close>

record Request =
  input :: string
  verb :: string
  headers :: "(string \<times> string) list"
  payload :: "string option"

definition new_Request :: "string \<Rightarrow> Request" where
  "new_Request s = \<lparr>input = s, verb = ''GET'', headers = [], payload = None\<rparr>"

text \<open>
  \<^verbatim>\<open>class LanyardHTTPError extends Error\<close> with the three parameter properties of its
  constructor and the \<^verbatim>\<open>message\<close> it inherits from \<^verbatim>\<open>Error\<close>, here \<open>Error_message\<close>
  (the name \<open>message\<close> is the error body's field).
\<close>

record ('e, 'a) LanyardHTTPError =
  request :: Request
  response :: "('e, 'a) Response"
  body :: "'a EitherAPIResponse"
  Error_message :: string

text \<open>
  Everything the promise of the fetch operation can reject with: a failure value of the
  platform, passed through as it is; a \<^verbatim>\<open>TypeError\<close> of the runtime (carrying the name of
  the property that was read from \<^verbatim>\<open>undefined\<close>); or the library's own error.
\<close>

datatype ('e, 'a) thrown =
    Platform 'e
  | TypeError string
  | HTTPError "('e, 'a) LanyardHTTPError"

text \<open>
  The constructor runs \<^verbatim>\<open>super(body.error.message)\<close> before anything else. Its parameter is
  declared as \<^verbatim>\<open>API.ErroredAPIResponse\<close>, but the caller passes whatever body failed
  \<^verbatim>\<open>isSuccess\<close>; when that body has no \<^verbatim>\<open>error\<close> property, reading \<^verbatim>\<open>.message\<close> from
  \<^verbatim>\<open>undefined\<close> throws and no error object is constructed.
\<close>

definition new_LanyardHTTPError ::
  "Request \<Rightarrow> ('e, 'a) Response \<Rightarrow> 'a EitherAPIResponse \<Rightarrow> ('e, 'a) thrown + ('e, 'a) LanyardHTTPError" where
  "new_LanyardHTTPError req resp b =
     (case error b of
        None \<Rightarrow> Inl (TypeError ''message'')
      | Some e \<Rightarrow> Inr \<lparr>request = req, response = resp, body = b, Error_message = message e\<rparr>)"

text \<open>
  The promise returned by the asynchronous \<^verbatim>\<open>get\<close>: resolved with a value (\<open>None\<close> being
  \<^verbatim>\<open>undefined\<close>, as for the property reads above) or rejected.
\<close>

datatype ('e, 'a) outcome =
    Resolved "'a option"
  | Rejected "('e, 'a) thrown"

text \<open>
  The platform's \<^verbatim>\<open>fetch\<close>: the network is a parameter \<open>net\<close> that answers a request with
  a failure or a response, and the list of requests sent so far is the state.
\<close>

definition fetch ::
  "(Request \<Rightarrow> 'e + ('e, 'a) Response) \<Rightarrow> Request \<Rightarrow> Request list
     \<Rightarrow> ('e + ('e, 'a) Response) \<times> Request list" where
  "fetch net req sent = (net req, sent @ [req])"

text \<open>
  \<^verbatim>\<open>get(id)\<close>, statement by statement; each \<^verbatim>\<open>await\<close> that rejects ends the function with
  that rejection. The parameter \<^verbatim>\<open>id\<close> is called \<open>uid\<close>, since \<open>id\<close> is HOL's identity.
\<close>

definition get ::
  "(Request \<Rightarrow> 'e + ('e, 'a) Response) \<Rightarrow> string \<Rightarrow> Request list
     \<Rightarrow> ('e, 'a) outcome \<times> Request list" where
  "get net uid sent =
     (let req = new_Request (''https://api.lanyard.rest/v1/users/'' @ uid);
          (fetched, sent') = fetch net req sent
      in case fetched of
           Inl failure \<Rightarrow> (Rejected (Platform failure), sent')
         | Inr resp \<Rightarrow>
             (case json resp of
                Inl failure \<Rightarrow> (Rejected (Platform failure), sent')
              | Inr b \<Rightarrow>
                  if \<not> isSuccess resp b
                  then (case new_LanyardHTTPError req resp b of
                          Inl t \<Rightarrow> (Rejected t, sent')
                        | Inr err \<Rightarrow> (Rejected (HTTPError err), sent'))
                  else (Resolved (data b), sent')))"

section \<open>The URL of a request\<close>

text \<open>
  \<^verbatim>\<open>Request.url\<close> is the serialisation of the URL that the URL Standard's parser reads
  from the constructor's string. The parser is modelled for the strings that start with
  the API's origin \<^verbatim>\<open>https://api.lanyard.rest/\<close>, which covers every string \<^verbatim>\<open>get\<close> builds
  (lemma \<open>parse_users\<close> below); strings are sequences of UTF-8 bytes.

  Before anything else the parser strips leading and trailing C0 controls and spaces and
  removes every tab and newline.
\<close>

definition C0_control_or_space :: "char \<Rightarrow> bool" where
  "C0_control_or_space c = (of_char c \<le> (0x20 :: nat))"

definition tab_or_newline :: "char \<Rightarrow> bool" where
  "tab_or_newline c = (of_char c \<in> {0x09, 0x0A, 0x0D :: nat})"

definition prepare :: "string \<Rightarrow> string" where
  "prepare s =
     filter (\<lambda>c. \<not> tab_or_newline c)
       (rev (dropWhile C0_control_or_space (rev (dropWhile C0_control_or_space s))))"

text \<open>
  The percent-encode sets of the URL Standard, and the encoding of one byte: a byte of
  the set becomes \<^verbatim>\<open>%\<close> and two upper-case hexadecimal digits.
\<close>

definition C0_control_set :: "char \<Rightarrow> bool" where
  "C0_control_set c = (of_char c < (0x20 :: nat) \<or> (0x7E :: nat) < of_char c)"

definition fragment_set :: "char \<Rightarrow> bool" where
  "fragment_set c = (C0_control_set c \<or> c \<in> set '' \"<>`'')"

definition query_set :: "char \<Rightarrow> bool" where
  "query_set c = (C0_control_set c \<or> c \<in> set '' \"#<>'')"

definition special_query_set :: "char \<Rightarrow> bool" where
  "special_query_set c = (query_set c \<or> c = CHR 0x27)"

definition path_set :: "char \<Rightarrow> bool" where
  "path_set c = (query_set c \<or> c \<in> set ''?^`{}'')"

definition hex_digit :: "nat \<Rightarrow> char" where
  "hex_digit n = ''0123456789ABCDEF'' ! (n mod 16)"

definition percent_encode :: "(char \<Rightarrow> bool) \<Rightarrow> char \<Rightarrow> string" where
  "percent_encode encode_set c =
     (if encode_set c
      then [CHR ''%'', hex_digit (of_char c div 16), hex_digit (of_char c mod 16)]
      else [c])"

text \<open>
  Single-dot and double-dot path segments, which the parser drops or resolves; \<^verbatim>\<open>%2e\<close>
  counts as a dot in either case of the letter.
\<close>

definition lower_e :: "string \<Rightarrow> string" where
  "lower_e s = map (\<lambda>c. if c = CHR ''E'' then CHR ''e'' else c) s"

definition single_dot :: "string \<Rightarrow> bool" where
  "single_dot s = (lower_e s \<in> set [''.'', ''%2e''])"

definition double_dot :: "string \<Rightarrow> bool" where
  "double_dot s = (lower_e s \<in> set [''..'', ''.%2e'', ''%2e.'', ''%2e%2e''])"

text \<open>
  The URL record behind the fixed scheme and host: the path as its list of segments, and
  the query and the fragment, each absent (\<open>None\<close>) or present.
\<close>

record URL =
  path :: "string list"
  query :: "string option"
  fragment :: "string option"

text \<open>
  The end of a path segment, where \<open>slash\<close> tells whether a slash (or backslash) ended it:
  a double-dot segment removes the last segment of the path, if any, a single-dot segment
  adds nothing, and both leave an empty last segment when no slash follows.
\<close>

definition segment_end :: "string list \<Rightarrow> string \<Rightarrow> bool \<Rightarrow> string list" where
  "segment_end segments buffer slash =
     (if double_dot buffer then (if slash then butlast segments else butlast segments @ [[]])
      else if single_dot buffer then (if slash then segments else segments @ [[]])
      else segments @ [buffer])"

text \<open>The parser's fragment state, query state and path state.\<close>

definition fragment_state :: "string \<Rightarrow> string" where
  "fragment_state cs = concat (map (percent_encode fragment_set) cs)"

definition query_state :: "string \<Rightarrow> string \<times> string option" where
  "query_state cs =
     (concat (map (percent_encode special_query_set) (takeWhile (\<lambda>c. c \<noteq> CHR ''#'') cs)),
      case dropWhile (\<lambda>c. c \<noteq> CHR ''#'') cs of
        [] \<Rightarrow> None
      | c # rest \<Rightarrow> Some (fragment_state rest))"

fun path_state :: "string list \<Rightarrow> string \<Rightarrow> string \<Rightarrow> URL" where
  "path_state segments buffer [] =
     \<lparr>path = segment_end segments buffer False, query = None, fragment = None\<rparr>"
| "path_state segments buffer (c # cs) =
     (if c = CHR ''/'' \<or> c = CHR 0x5C then path_state (segment_end segments buffer True) [] cs
      else if c = CHR ''?''
        then \<lparr>path = segment_end segments buffer False,
              query = Some (fst (query_state cs)), fragment = snd (query_state cs)\<rparr>
      else if c = CHR ''#''
        then \<lparr>path = segment_end segments buffer False,
              query = None, fragment = Some (fragment_state cs)\<rparr>
      else path_state segments (buffer @ percent_encode path_set c) cs)"

text \<open>
  Parsing a string of the API's origin: the path state starts behind the slash that ends
  the host. \<open>None\<close> is the answer for every other string; those are left unmodelled.
\<close>

definition parse :: "string \<Rightarrow> URL option" where
  "parse s =
     (let s' = prepare s in
      if take (length ''https://api.lanyard.rest/'') s' = ''https://api.lanyard.rest/''
      then Some (path_state [] [] (drop (length ''https://api.lanyard.rest/'') s'))
      else None)"

definition serialize :: "URL \<Rightarrow> string" where
  "serialize u =
     ''https://api.lanyard.rest'' @ concat (map (\<lambda>segment. CHR ''/'' # segment) (path u))
       @ (case query u of None \<Rightarrow> [] | Some q \<Rightarrow> CHR ''?'' # q)
       @ (case fragment u of None \<Rightarrow> [] | Some f \<Rightarrow> CHR ''#'' # f)"

definition url :: "Request \<Rightarrow> string option" where
  "url req = map_option serialize (parse (input req))"

section \<open>Identifiers\<close>

text \<open>
  \<^verbatim>\<open>Types.Snowflake\<close> is the template type \<^verbatim>\<open>`${bigint}`\<close>: the strings that read as a bigint
  literal, which is an optional minus sign followed by decimal digits or by one of the
  prefixes \<^verbatim>\<open>0x\<close>, \<^verbatim>\<open>0o\<close>, \<^verbatim>\<open>0b\<close> (in either case) and digits of that radix. What is used of
  the type below is the alphabet of these strings alone, so \<open>bigint_text\<close> holds of every
  string of the type, and of other strings over the same characters as well.
\<close>

definition bigint_char :: "char \<Rightarrow> bool" where
  "bigint_char c = (c \<in> set ''-0123456789abcdefABCDEFxXoO'')"

definition bigint_text :: "string \<Rightarrow> bool" where
  "bigint_text s = list_all bigint_char s"

section \<open>The two predicates at run time\<close>

text \<open>
  At run time the body is whatever \<^verbatim>\<open>JSON.parse\<close> produced, and a property read can throw.
  The values: JSON's, with integers for the numbers, and \<^verbatim>\<open>undefined\<close>. An object is the
  list of its own properties, one entry per name.
\<close>

datatype jsvalue =
    JSUndefined
  | JSNull
  | JSBoolean bool
  | JSNumber int
  | JSString string
  | JSArray "jsvalue list"
  | JSObject "(string \<times> jsvalue) list"

text \<open>
  The property read \<^verbatim>\<open>v.name\<close>: a \<^verbatim>\<open>TypeError\<close> on \<^verbatim>\<open>undefined\<close> and \<^verbatim>\<open>null\<close>, the property's
  value on an object that has it, and \<^verbatim>\<open>undefined\<close> otherwise. For a primitive or an array
  that is the runtime's answer for the names the library reads (\<^verbatim>\<open>success\<close>, \<^verbatim>\<open>data\<close>,
  \<^verbatim>\<open>error\<close>, \<^verbatim>\<open>message\<close>); their \<^verbatim>\<open>length\<close>, their indices and the inherited methods are
  left out.
\<close>

fun read_property :: "jsvalue \<Rightarrow> string \<Rightarrow> ('e, 'a) thrown + jsvalue" where
  "read_property JSUndefined name = Inl (TypeError name)"
| "read_property JSNull name = Inl (TypeError name)"
| "read_property (JSObject properties) name =
     Inr (case map_of properties name of None \<Rightarrow> JSUndefined | Some v \<Rightarrow> v)"
| "read_property v name = Inr JSUndefined"

text \<open>What \<^verbatim>\<open>!\<close> and \<^verbatim>\<open>&&\<close> take for true.\<close>

fun truthy :: "jsvalue \<Rightarrow> bool" where
  "truthy JSUndefined = False"
| "truthy JSNull = False"
| "truthy (JSBoolean b) = b"
| "truthy (JSNumber n) = (n \<noteq> 0)"
| "truthy (JSString s) = (s \<noteq> [])"
| "truthy (JSArray vs) = True"
| "truthy (JSObject properties) = True"

text \<open>
  The object that \<^verbatim>\<open>JSON.parse\<close> yields for a body of the declared shape, for any encoding
  \<open>enc\<close> of the payload.
\<close>

fun object_of :: "('a \<Rightarrow> jsvalue) \<Rightarrow> 'a EitherAPIResponse \<Rightarrow> jsvalue" where
  "object_of enc (SuccessfulAPIResponse d) =
     JSObject [(''success'', JSBoolean True), (''data'', enc d)]"
| "object_of enc (ErroredAPIResponse e) =
     JSObject [(''success'', JSBoolean False),
               (''error'', JSObject [(''message'', JSString (message e)),
                                     (''code'', JSString (code e))])]"

text \<open>
  The body of \<^verbatim>\<open>isSuccess\<close>, \<^verbatim>\<open>response.ok && body.success\<close>, evaluated on such values with
  the state of the fetch operation (the requests sent so far) passed along: \<^verbatim>\<open>response.ok\<close>
  is a boolean of the platform; when it is false, \<^verbatim>\<open>&&\<close> answers it without reading the
  body, and otherwise answers \<^verbatim>\<open>body.success\<close>, which may throw.
\<close>

definition run_isSuccess ::
  "('e, 'a) Response \<Rightarrow> jsvalue \<Rightarrow> Request list
     \<Rightarrow> (('e, 'a) thrown + jsvalue) \<times> Request list" where
  "run_isSuccess resp b sent =
     (if ok resp then (read_property b ''success'', sent)
      else (Inr (JSBoolean False), sent))"

text \<open>The body of \<^verbatim>\<open>isErrored\<close>, \<^verbatim>\<open>!isSuccess(response, body)\<close>, in the same way.\<close>

definition run_isErrored ::
  "('e, 'a) Response \<Rightarrow> jsvalue \<Rightarrow> Request list
     \<Rightarrow> (('e, 'a) thrown + jsvalue) \<times> Request list" where
  "run_isErrored resp b sent =
     (case run_isSuccess resp b sent of
        (Inl t, sent') \<Rightarrow> (Inl t, sent')
      | (Inr v, sent') \<Rightarrow> (Inr (JSBoolean (\<not> truthy v)), sent'))"

section \<open>Auxiliary facts\<close>

text \<open>Characters of a bigint literal are left alone by every step of the parser.\<close>

lemma bigint_char_plain:
  assumes "bigint_char c"
  shows "\<not> C0_control_or_space c" and "\<not> tab_or_newline c" and "\<not> path_set c"
    and "c \<noteq> CHR ''/''" and "c \<noteq> CHR 0x5C" and "c \<noteq> CHR ''?''" and "c \<noteq> CHR ''#''"
    and "c \<noteq> CHR ''.''" and "c \<noteq> CHR ''%''"
  using assms
  by (auto simp: bigint_char_def C0_control_or_space_def tab_or_newline_def path_set_def
      query_set_def C0_control_set_def)

lemma bigint_not_dots:
  assumes "list_all bigint_char s"
  shows "\<not> single_dot s" and "\<not> double_dot s"
proof -
  have "lower_e s \<noteq> CHR ''.'' # t" "lower_e s \<noteq> CHR ''%'' # t" for t
    using assms bigint_char_plain(8,9) by (cases s; auto simp: lower_e_def)+
  then show "\<not> single_dot s" and "\<not> double_dot s"
    by (auto simp: single_dot_def double_dot_def)
qed

lemma path_state_bigint:
  "list_all bigint_char cs \<Longrightarrow>
     path_state segments buffer cs =
       \<lparr>path = segment_end segments (buffer @ cs) False, query = None, fragment = None\<rparr>"
proof (induction cs arbitrary: buffer)
  case Nil
  then show ?case by simp
next
  case (Cons c cs)
  then have c: "bigint_char c" and cs: "list_all bigint_char cs" by simp_all
  have "path_state segments buffer (c # cs) = path_state segments (buffer @ [c]) cs"
    using bigint_char_plain [OF c] by (simp add: percent_encode_def)
  with Cons.IH [OF cs, of "buffer @ [c]"] show ?case by simp
qed

lemma prepare_bigint:
  assumes "list_all bigint_char cs"
  shows "prepare (''https://api.lanyard.rest/v1/users/'' @ cs)
           = ''https://api.lanyard.rest/v1/users/'' @ cs"
proof -
  let ?base = "''https://api.lanyard.rest/v1/users/''"
  have lead: "dropWhile C0_control_or_space (?base @ cs) = ?base @ cs"
    by (simp add: C0_control_or_space_def)
  have trail: "dropWhile C0_control_or_space (rev (?base @ cs)) = rev (?base @ cs)"
  proof (cases cs rule: rev_cases)
    case Nil
    then show ?thesis by (simp add: C0_control_or_space_def)
  next
    case (snoc ys y)
    with assms have "bigint_char y" by simp
    with snoc show ?thesis by (simp add: bigint_char_plain(1))
  qed
  have keep: "filter (\<lambda>c. \<not> tab_or_newline c) cs = cs"
    using assms by (auto simp: filter_id_conv list_all_iff bigint_char_plain(2))
  have "filter (\<lambda>c. \<not> tab_or_newline c) (?base @ cs) = ?base @ cs"
    unfolding filter_append keep by (simp add: tab_or_newline_def)
  then show ?thesis
    unfolding prepare_def lead trail rev_rev_ident .
qed

lemma parse_bigint:
  assumes "list_all bigint_char cs"
  shows "parse (''https://api.lanyard.rest/v1/users/'' @ cs) =
           Some \<lparr>path = [''v1'', ''users'', cs], query = None, fragment = None\<rparr>"
proof -
  have "parse (''https://api.lanyard.rest/v1/users/'' @ cs)
          = Some (path_state [] [] (''v1/users/'' @ cs))"
    unfolding parse_def prepare_bigint [OF assms] by simp
  also have "path_state [] [] (''v1/users/'' @ cs) = path_state [''v1'', ''users''] [] cs"
    by (simp add: percent_encode_def path_set_def query_set_def C0_control_set_def
        segment_end_def single_dot_def double_dot_def lower_e_def)
  also have "\<dots> = \<lparr>path = [''v1'', ''users'', cs], query = None, fragment = None\<rparr>"
    using assms by (simp add: path_state_bigint segment_end_def bigint_not_dots)
  finally show ?thesis .
qed

lemma serialize_users:
  "serialize \<lparr>path = [''v1'', ''users'', cs], query = None, fragment = None\<rparr>
     = ''https://api.lanyard.rest/v1/users/'' @ cs"
  by (simp add: serialize_def)

text \<open>Every string that \<^verbatim>\<open>get\<close> builds is a string of the API's origin, whatever the identifier.\<close>

lemma prepare_users:
  "\<exists>rest. prepare (''https://api.lanyard.rest/v1/users/'' @ uid) = ''https://api.lanyard.rest/v1/users/'' @ rest"
proof -
  let ?base = "''https://api.lanyard.rest/v1/users/''"
  let ?kept = "rev (dropWhile C0_control_or_space (rev uid))"
  have lead: "dropWhile C0_control_or_space (?base @ uid) = ?base @ uid"
    by (simp add: C0_control_or_space_def)
  have "dropWhile C0_control_or_space (rev uid @ rev ?base)
          = dropWhile C0_control_or_space (rev uid) @ rev ?base"
    by (simp add: dropWhile_append C0_control_or_space_def)
  then have trail: "rev (dropWhile C0_control_or_space (rev (?base @ uid))) = ?base @ ?kept"
    unfolding rev_append by simp
  have "filter (\<lambda>c. \<not> tab_or_newline c) (?base @ ?kept)
          = ?base @ filter (\<lambda>c. \<not> tab_or_newline c) ?kept"
    unfolding filter_append by (simp add: tab_or_newline_def)
  then show ?thesis
    unfolding prepare_def lead trail by blast
qed

lemma parse_users: "parse (''https://api.lanyard.rest/v1/users/'' @ uid) \<noteq> None"
proof -
  obtain rest where "prepare (''https://api.lanyard.rest/v1/users/'' @ uid) = ''https://api.lanyard.rest/v1/users/'' @ rest"
    using prepare_users by blast
  then show ?thesis
    unfolding parse_def by simp
qed

text \<open>On a body of the declared shape the run-time predicates compute the typed ones.\<close>

lemma run_isSuccess_typed:
  "run_isSuccess r (object_of enc b) sent = (Inr (JSBoolean (isSuccess r b)), sent)"
  by (cases b) (simp_all add: run_isSuccess_def isSuccess_def)

lemma run_isErrored_typed:
  "run_isErrored r (object_of enc b) sent = (Inr (JSBoolean (isErrored r b)), sent)"
  by (simp add: run_isErrored_def run_isSuccess_typed isErrored_def)

text \<open>Outside that shape the property read can throw, as on \<^verbatim>\<open>null\<close>.\<close>

lemma run_isSuccess_null:
  "ok r \<Longrightarrow> run_isSuccess r JSNull sent = (Inl (TypeError ''success''), sent)"
  by (simp add: run_isSuccess_def)

text \<open>The fetch operation, split by what the network answers.\<close>

lemma get_sent:
  "snd (get net uid sent) = sent @ [new_Request (''https://api.lanyard.rest/v1/users/'' @ uid)]"
  by (simp add: get_def fetch_def Let_def split: sum.splits)

lemma get_fetch_rejects:
  "net (new_Request (''https://api.lanyard.rest/v1/users/'' @ uid)) = Inl e
     \<Longrightarrow> fst (get net uid sent) = Rejected (Platform e)"
  by (simp add: get_def fetch_def)

lemma get_json_rejects:
  "net (new_Request (''https://api.lanyard.rest/v1/users/'' @ uid)) = Inr r \<Longrightarrow> json r = Inl e
     \<Longrightarrow> fst (get net uid sent) = Rejected (Platform e)"
  by (simp add: get_def fetch_def)

lemma get_parsed:
  "net (new_Request (''https://api.lanyard.rest/v1/users/'' @ uid)) = Inr r \<Longrightarrow> json r = Inr b
     \<Longrightarrow> fst (get net uid sent) =
         (if isSuccess r b then Resolved (data b)
          else (case new_LanyardHTTPError
                       (new_Request (''https://api.lanyard.rest/v1/users/'' @ uid)) r b of
                  Inl t \<Rightarrow> Rejected t
                | Inr err \<Rightarrow> Rejected (HTTPError err)))"
  by (simp add: get_def fetch_def split: sum.splits)

section \<open>The two predicates\<close>

text \<open>
  C1. For every response and every body, \<^verbatim>\<open>isSuccess\<close> is true exactly when the response's
  \<^verbatim>\<open>ok\<close> flag is true and the body is the success-tagged variant; in every other case it
  is false.
\<close>

theorem isSuccess_iff:
  "isSuccess r b = (ok r \<and> (\<exists>d. b = SuccessfulAPIResponse d))"
  by (cases b) (simp_all add: isSuccess_def)

text \<open>
  C5. \<^verbatim>\<open>isErrored\<close> is the negation of \<^verbatim>\<open>isSuccess\<close> on every pair of a response and a
  body, so the two never agree: exactly one of them is true.
\<close>

theorem isErrored_complement:
  "isErrored r b = (\<not> isSuccess r b) \<and> isErrored r b \<noteq> isSuccess r b"
  by (simp add: isErrored_def)

text \<open>
  C9. On every response and every body of the declared shape, evaluating \<^verbatim>\<open>isSuccess\<close> and
  \<^verbatim>\<open>isErrored\<close> throws nothing, answers a boolean (the value of the typed predicate) and
  leaves the state as it was. Two evaluations on responses with equal \<^verbatim>\<open>ok\<close> flags
  (whatever their status codes and payloads, and in whatever states) and on equal bodies
  give equal results.
\<close>

theorem predicates_pure:
  assumes "ok r1 = ok r2"
  shows "run_isSuccess r1 (object_of enc b) sent = (Inr (JSBoolean (isSuccess r1 b)), sent)
       \<and> run_isErrored r1 (object_of enc b) sent = (Inr (JSBoolean (isErrored r1 b)), sent)
       \<and> fst (run_isSuccess r1 (object_of enc b) sent)
           = fst (run_isSuccess r2 (object_of enc b) sent')
       \<and> fst (run_isErrored r1 (object_of enc b) sent)
           = fst (run_isErrored r2 (object_of enc b) sent')
       \<and> isSuccess r1 b = isSuccess r2 b
       \<and> isErrored r1 b = isErrored r2 b"
  using assms
  by (simp add: run_isSuccess_typed run_isErrored_typed isErrored_def isSuccess_def)

theorem predicates_pure_witness:
  "ok \<lparr>ok = True, status = 200, json = Inl ''unreadable'' :: string + string EitherAPIResponse\<rparr>
     = ok \<lparr>ok = True, status = 203, json = Inr (SuccessfulAPIResponse ''presence'') :: string + string EitherAPIResponse\<rparr>
   \<and> run_isSuccess \<lparr>ok = True, status = 200, json = Inl ''unreadable'' :: string + string EitherAPIResponse\<rparr>
        (object_of JSString (SuccessfulAPIResponse ''presence'')) [] = (Inr (JSBoolean True), [])
   \<and> run_isErrored \<lparr>ok = True, status = 200, json = Inl ''unreadable'' :: string + string EitherAPIResponse\<rparr>
        (object_of JSString (SuccessfulAPIResponse ''presence'')) [] = (Inr (JSBoolean False), [])
   \<and> fst (run_isSuccess \<lparr>ok = True, status = 200, json = Inl ''unreadable'' :: string + string EitherAPIResponse\<rparr>
        (object_of JSString (SuccessfulAPIResponse ''presence'')) [])
       = fst (run_isSuccess \<lparr>ok = True, status = 203, json = Inr (SuccessfulAPIResponse ''presence'') :: string + string EitherAPIResponse\<rparr>
        (object_of JSString (SuccessfulAPIResponse ''presence'')) [new_Request ''https://api.lanyard.rest/v1/users/1''])
   \<and> fst (run_isErrored \<lparr>ok = True, status = 200, json = Inl ''unreadable'' :: string + string EitherAPIResponse\<rparr>
        (object_of JSString (SuccessfulAPIResponse ''presence'')) [])
       = fst (run_isErrored \<lparr>ok = True, status = 203, json = Inr (SuccessfulAPIResponse ''presence'') :: string + string EitherAPIResponse\<rparr>
        (object_of JSString (SuccessfulAPIResponse ''presence'')) [new_Request ''https://api.lanyard.rest/v1/users/1''])
   \<and> isSuccess \<lparr>ok = True, status = 200, json = Inl ''unreadable'' :: string + string EitherAPIResponse\<rparr>
        (SuccessfulAPIResponse ''presence'')
       = isSuccess \<lparr>ok = True, status = 203, json = Inr (SuccessfulAPIResponse ''presence'') :: string + string EitherAPIResponse\<rparr>
        (SuccessfulAPIResponse ''presence'')
   \<and> isErrored \<lparr>ok = True, status = 200, json = Inl ''unreadable'' :: string + string EitherAPIResponse\<rparr>
        (SuccessfulAPIResponse ''presence'')
       = isErrored \<lparr>ok = True, status = 203, json = Inr (SuccessfulAPIResponse ''presence'') :: string + string EitherAPIResponse\<rparr>
        (SuccessfulAPIResponse ''presence'')"
  using predicates_pure
    [of "\<lparr>ok = True, status = 200, json = Inl ''unreadable'' :: string + string EitherAPIResponse\<rparr>"
        "\<lparr>ok = True, status = 203, json = Inr (SuccessfulAPIResponse ''presence'') :: string + string EitherAPIResponse\<rparr>"
        JSString "SuccessfulAPIResponse ''presence''" "[]"
        "[new_Request ''https://api.lanyard.rest/v1/users/1'']"]
  by (auto simp add: isSuccess_def isErrored_def)

text \<open>
  C10. \<^verbatim>\<open>isErrored\<close> is true on every success-tagged body paired with a response whose
  \<^verbatim>\<open>ok\<close> flag is false, and such a body has no \<^verbatim>\<open>error\<close> property: a true \<^verbatim>\<open>isErrored\<close>
  does not mean that the body carries an error with a message and a code.
\<close>

theorem isErrored_on_success_body:
  "isErrored (r\<lparr>ok := False\<rparr>) (SuccessfulAPIResponse d)
   \<and> success (SuccessfulAPIResponse d)
   \<and> error (SuccessfulAPIResponse d) = None"
  by (simp add: isErrored_def isSuccess_def)

section \<open>The fetch operation\<close>

text \<open>
  C2. When the network answers the request with a response whose \<^verbatim>\<open>ok\<close> flag is true and
  whose body parses to the success-tagged envelope around \<open>d\<close>, the promise of \<^verbatim>\<open>get\<close>
  resolves to \<open>d\<close> itself.
\<close>

theorem get_resolves_data:
  assumes "net (new_Request (''https://api.lanyard.rest/v1/users/'' @ uid)) = Inr r"
    and "ok r"
    and "json r = Inr (SuccessfulAPIResponse d)"
  shows "fst (get net uid sent) = Resolved (Some d)"
  using assms by (simp add: get_parsed isSuccess_def)

theorem get_resolves_data_witness:
  "(\<lambda>q. Inr \<lparr>ok = True, status = 200, json = Inr (SuccessfulAPIResponse ''presence'')\<rparr>)
       (new_Request (''https://api.lanyard.rest/v1/users/'' @ ''123456789012345678''))
     = (Inr \<lparr>ok = True, status = 200, json = Inr (SuccessfulAPIResponse ''presence'')\<rparr>
          :: string + (string, string) Response)
   \<and> ok \<lparr>ok = True, status = 200,
          json = Inr (SuccessfulAPIResponse ''presence'') :: string + string EitherAPIResponse\<rparr>
   \<and> json \<lparr>ok = True, status = 200,
            json = Inr (SuccessfulAPIResponse ''presence'') :: string + string EitherAPIResponse\<rparr>
       = Inr (SuccessfulAPIResponse ''presence'')
   \<and> fst (get (\<lambda>q. Inr \<lparr>ok = True, status = 200, json = Inr (SuccessfulAPIResponse ''presence'')\<rparr>
                      :: string + (string, string) Response)
              ''123456789012345678'' [])
       = Resolved (Some ''presence'')"
  using get_resolves_data
    [of "\<lambda>q. Inr \<lparr>ok = True, status = 200, json = Inr (SuccessfulAPIResponse ''presence'')\<rparr>"
        "''123456789012345678''"
        "\<lparr>ok = True, status = 200, json = Inr (SuccessfulAPIResponse ''presence'')\<rparr>"
        "''presence''" "[]"]
  by simp

text \<open>
  C3. When the body parses to the error-tagged envelope with message \<open>m\<close> and code \<open>c\<close>,
  whatever the response's \<^verbatim>\<open>ok\<close> flag and status, the promise of \<^verbatim>\<open>get\<close> rejects with a
  \<^verbatim>\<open>LanyardHTTPError\<close> whose message is \<open>m\<close>, whose body is that envelope (so its error code
  is \<open>c\<close>), and which holds the request that was sent and the response that came back.
\<close>

theorem get_raises_error_body:
  assumes "net (new_Request (''https://api.lanyard.rest/v1/users/'' @ uid)) = Inr r"
    and "json r = Inr (ErroredAPIResponse \<lparr>message = m, code = c\<rparr>)"
  shows "fst (get net uid sent) =
           Rejected (HTTPError
             \<lparr>request = new_Request (''https://api.lanyard.rest/v1/users/'' @ uid),
              response = r,
              body = ErroredAPIResponse \<lparr>message = m, code = c\<rparr>,
              Error_message = m\<rparr>)"
  using assms by (simp add: get_parsed isSuccess_def new_LanyardHTTPError_def)

theorem get_raises_error_body_witness:
  "(\<lambda>q. Inr \<lparr>ok = True, status = 200,
              json = Inr (ErroredAPIResponse \<lparr>message = ''User not found'', code = ''USER_NOT_FOUND''\<rparr>)\<rparr>)
       (new_Request (''https://api.lanyard.rest/v1/users/'' @ ''123456789012345678''))
     = (Inr \<lparr>ok = True, status = 200,
              json = Inr (ErroredAPIResponse \<lparr>message = ''User not found'', code = ''USER_NOT_FOUND''\<rparr>)\<rparr>
          :: string + (string, string) Response)
   \<and> json \<lparr>ok = True, status = 200,
            json = Inr (ErroredAPIResponse \<lparr>message = ''User not found'', code = ''USER_NOT_FOUND''\<rparr>)
                     :: string + string EitherAPIResponse\<rparr>
       = Inr (ErroredAPIResponse \<lparr>message = ''User not found'', code = ''USER_NOT_FOUND''\<rparr>)
   \<and> fst (get (\<lambda>q. Inr \<lparr>ok = True, status = 200,
                          json = Inr (ErroredAPIResponse \<lparr>message = ''User not found'', code = ''USER_NOT_FOUND''\<rparr>)\<rparr>
                      :: string + (string, string) Response)
              ''123456789012345678'' [])
       = Rejected (HTTPError
           \<lparr>request = new_Request (''https://api.lanyard.rest/v1/users/'' @ ''123456789012345678''),
            response = \<lparr>ok = True, status = 200,
              json = Inr (ErroredAPIResponse \<lparr>message = ''User not found'', code = ''USER_NOT_FOUND''\<rparr>)\<rparr>,
            body = ErroredAPIResponse \<lparr>message = ''User not found'', code = ''USER_NOT_FOUND''\<rparr>,
            Error_message = ''User not found''\<rparr>)"
  using get_raises_error_body
    [of "\<lambda>q. Inr \<lparr>ok = True, status = 200,
                   json = Inr (ErroredAPIResponse \<lparr>message = ''User not found'', code = ''USER_NOT_FOUND''\<rparr>)\<rparr>"
        "''123456789012345678''"
        "\<lparr>ok = True, status = 200,
          json = Inr (ErroredAPIResponse \<lparr>message = ''User not found'', code = ''USER_NOT_FOUND''\<rparr>)\<rparr>"
        "''User not found''" "''USER_NOT_FOUND''" "[]"]
  by simp

text \<open>
  C4. A response whose \<^verbatim>\<open>ok\<close> flag is false and whose body is success-tagged fails
  \<^verbatim>\<open>isSuccess\<close>, so \<^verbatim>\<open>get\<close> goes on to construct the \<^verbatim>\<open>LanyardHTTPError\<close>. The constructor
  reads \<^verbatim>\<open>body.error.message\<close>, the body has no \<^verbatim>\<open>error\<close>, and the promise rejects with the
  runtime's \<^verbatim>\<open>TypeError\<close>: the data is not returned, but no error carrying the request, the
  response and the body is raised either.
\<close>

theorem get_success_body_not_ok:
  "fst (get (\<lambda>q. Inr \<lparr>ok = False, status = 500, json = Inr (SuccessfulAPIResponse ''presence'')\<rparr>
                    :: string + (string, string) Response)
            ''123456789012345678'' [])
     = Rejected (TypeError ''message'')"
  by (simp add: get_parsed isSuccess_def new_LanyardHTTPError_def)

text \<open>
  C6. Every call of \<^verbatim>\<open>get\<close> sends exactly one request, constructed from the fixed base
  followed by the identifier: a GET request without headers and without a body. For an
  identifier of type \<^verbatim>\<open>Snowflake\<close> the URL of that request is this very string, its path has
  the three segments \<^verbatim>\<open>v1\<close>, \<^verbatim>\<open>users\<close> and the identifier, and it has neither a query nor a
  fragment.
\<close>

theorem get_request:
  "snd (get net uid sent) =
     sent @ [\<lparr>input = ''https://api.lanyard.rest/v1/users/'' @ uid, verb = ''GET'',
              headers = [], payload = None\<rparr>]
   \<and> (bigint_text uid \<longrightarrow>
        url \<lparr>input = ''https://api.lanyard.rest/v1/users/'' @ uid, verb = ''GET'',
             headers = [], payload = None\<rparr>
          = Some (''https://api.lanyard.rest/v1/users/'' @ uid)
      \<and> parse (''https://api.lanyard.rest/v1/users/'' @ uid)
          = Some \<lparr>path = [''v1'', ''users'', uid], query = None, fragment = None\<rparr>)"
proof (intro conjI impI)
  show "snd (get net uid sent) =
     sent @ [\<lparr>input = ''https://api.lanyard.rest/v1/users/'' @ uid, verb = ''GET'',
              headers = [], payload = None\<rparr>]"
    unfolding get_sent new_Request_def ..
next
  assume "bigint_text uid"
  then have "list_all bigint_char uid"
    by (simp add: bigint_text_def)
  then show "parse (''https://api.lanyard.rest/v1/users/'' @ uid)
      = Some \<lparr>path = [''v1'', ''users'', uid], query = None, fragment = None\<rparr>"
    by (rule parse_bigint)
  then show "url \<lparr>input = ''https://api.lanyard.rest/v1/users/'' @ uid, verb = ''GET'',
             headers = [], payload = None\<rparr>
      = Some (''https://api.lanyard.rest/v1/users/'' @ uid)"
    by (simp only: url_def Request.simps option.map serialize_users)
qed

theorem get_request_witness:
  "bigint_text ''123456789012345678''
   \<and> snd (get (\<lambda>q. Inl ''offline'' :: string + (string, string) Response)
              ''123456789012345678'' []) =
       [\<lparr>input = ''https://api.lanyard.rest/v1/users/123456789012345678'', verb = ''GET'',
         headers = [], payload = None\<rparr>]
   \<and> url \<lparr>input = ''https://api.lanyard.rest/v1/users/123456789012345678'', verb = ''GET'',
           headers = [], payload = None\<rparr>
       = Some ''https://api.lanyard.rest/v1/users/123456789012345678''
   \<and> parse ''https://api.lanyard.rest/v1/users/123456789012345678''
       = Some \<lparr>path = [''v1'', ''users'', ''123456789012345678''], query = None, fragment = None\<rparr>"
proof -
  have s: "bigint_text ''123456789012345678''"
    by (simp add: bigint_text_def bigint_char_def)
  show ?thesis
    using s get_request [of "\<lambda>q. Inl ''offline'' :: string + (string, string) Response"
                            "''123456789012345678''" "[]"]
    by simp
qed

text \<open>
  C7. When \<^verbatim>\<open>fetch\<close> rejects with a failure \<open>e\<close> instead of producing a response, the promise
  of \<^verbatim>\<open>get\<close> rejects with \<open>e\<close> itself, not with a \<^verbatim>\<open>LanyardHTTPError\<close>.
\<close>

theorem get_transport_failure:
  assumes "net (new_Request (''https://api.lanyard.rest/v1/users/'' @ uid)) = Inl e"
  shows "fst (get net uid sent) = Rejected (Platform e)"
  using assms by (rule get_fetch_rejects)

theorem get_transport_failure_witness:
  "(\<lambda>q. Inl ''connection reset'') (new_Request (''https://api.lanyard.rest/v1/users/'' @ ''123456789012345678''))
     = (Inl ''connection reset'' :: string + (string, string) Response)
   \<and> fst (get (\<lambda>q. Inl ''connection reset'' :: string + (string, string) Response)
              ''123456789012345678'' [])
       = Rejected (Platform ''connection reset'')"
  using get_transport_failure
    [of "\<lambda>q. Inl ''connection reset'' :: string + (string, string) Response"
        "''123456789012345678''" "''connection reset''" "[]"]
  by simp

text \<open>
  C8. When a response arrives but \<^verbatim>\<open>response.json()\<close> rejects with a failure \<open>e\<close>, the
  promise of \<^verbatim>\<open>get\<close> rejects with \<open>e\<close> itself, not with a \<^verbatim>\<open>LanyardHTTPError\<close>.
\<close>

theorem get_parse_failure:
  assumes "net (new_Request (''https://api.lanyard.rest/v1/users/'' @ uid)) = Inr r"
    and "json r = Inl e"
  shows "fst (get net uid sent) = Rejected (Platform e)"
  using assms by (rule get_json_rejects)

theorem get_parse_failure_witness:
  "(\<lambda>q. Inr \<lparr>ok = True, status = 200, json = Inl ''unexpected token''\<rparr>)
       (new_Request (''https://api.lanyard.rest/v1/users/'' @ ''123456789012345678''))
     = (Inr \<lparr>ok = True, status = 200, json = Inl ''unexpected token''\<rparr>
          :: string + (string, string) Response)
   \<and> json \<lparr>ok = True, status = 200,
            json = Inl ''unexpected token'' :: string + string EitherAPIResponse\<rparr>
       = Inl ''unexpected token''
   \<and> fst (get (\<lambda>q. Inr \<lparr>ok = True, status = 200, json = Inl ''unexpected token''\<rparr>
                      :: string + (string, string) Response)
              ''123456789012345678'' [])
       = Rejected (Platform ''unexpected token'')"
  using get_parse_failure
    [of "\<lambda>q. Inr \<lparr>ok = True, status = 200, json = Inl ''unexpected token''\<rparr>"
        "''123456789012345678''"
        "\<lparr>ok = True, status = 200, json = Inl ''unexpected token''\<rparr>"
        "''unexpected token''" "[]"]
  by simp

end
